theory Spec2Isabelle
  imports Main "HOL-Library.Word"
begin

unbundle bit_operations_syntax

section \<open>OpenCL scalar types and constants\<close>

text \<open>
  The scalar types of the OpenCL headers: \<open>cl_int\<close> and \<open>cl_uint\<close> are 32 bits wide,
  \<open>cl_bool\<close> is a \<open>cl_uint\<close>, \<open>cl_bitfield\<close> and \<open>cl_queue_properties\<close> are
  \<open>cl_ulong\<close> (64 bits). An object pointer is its address, \<open>nullptr\<close> is address 0.
  \<open>size_t\<close> values are byte counts of objects that exist in memory; they are natural
  numbers here.
\<close>

type_synonym cl_int = "32 word"
type_synonym cl_uint = "32 word"
type_synonym cl_bool = "32 word"
type_synonym cl_bitfield = "64 word"
type_synonym cl_queue_properties = "64 word"
type_synonym byte = "8 word"
type_synonym ptr = nat

definition nullptr :: ptr where
  "nullptr = 0"

definition CL_SUCCESS :: cl_int where
  "CL_SUCCESS = 0"

definition CL_INVALID_VALUE :: cl_int where
  "CL_INVALID_VALUE = - 30"

definition CL_FALSE :: cl_bool where
  "CL_FALSE = 0"

definition CL_TRUE :: cl_bool where
  "CL_TRUE = 1"

definition CL_QUEUE_ON_DEVICE_DEFAULT :: cl_bitfield where
  "CL_QUEUE_ON_DEVICE_DEFAULT = push_bit 3 1"

text \<open>
  What the compilation target fixes and the source leaves open: the size of an object
  pointer, and whether \<open>std::vector::data()\<close> of an empty vector is the null pointer.
\<close>

record platform =
  sizeof_ptr :: nat
  empty_data_null :: bool

section \<open>The bit field of queue properties\<close>

text \<open>
  Modelled from the spec: the class \<open>BitField\<close> behind \<open>CommandQueueProperties\<close>
  (libANGLE/CLBitField.h) is not under src/. The spec calls enabling and disabling
  "single-bit-set/clear operations over a bitmask" where "a combined mask toggles all
  named bits atomically together", and a property is set when its bit is.
\<close>

definition isSet :: "cl_bitfield \<Rightarrow> cl_bitfield \<Rightarrow> bool" where
  "isSet mBits bits = (mBits AND bits \<noteq> 0)"

definition set_bits :: "cl_bitfield \<Rightarrow> cl_bitfield \<Rightarrow> cl_bitfield" where
  "set_bits mBits bits = mBits OR bits"

definition clear_bits :: "cl_bitfield \<Rightarrow> cl_bitfield \<Rightarrow> cl_bitfield" where
  "clear_bits mBits bits = mBits AND NOT bits"

section \<open>Objects and the heap\<close>

text \<open>
  The fields of \<open>cl::Device\<close>, \<open>cl::Context\<close> and \<open>cl::CommandQueue\<close> that the
  functions below read or write. \<open>mRefCount\<close> is the count of the \<open>Object\<close> base class.
  The owning and counted pointers of the source are addresses; a list of pointers is a
  list of addresses in the order of the \<open>std::list\<close>.
\<close>

record DeviceInfo =
  mImageSupport :: cl_bool
  mIL_Version :: string

record Device =
  mInfo :: DeviceInfo
  mDefaultCommandQueue :: ptr

record Context =
  mDevices :: "ptr list"
  mCommandQueues :: "ptr list"

record CommandQueue =
  mRefCount :: cl_uint
  mContext :: ptr
  mDevice :: ptr
  mPropArray :: "cl_queue_properties list"
  mProperties :: cl_bitfield
  mSize :: cl_uint

text \<open>
  The heap gives every address the object of each class stored there. A C++ reference
  or a counted pointer always designates a live object, so the functions below read
  the heap at the addresses they hold without a check, as the source does.
\<close>

record heap =
  queues :: "ptr \<Rightarrow> CommandQueue"
  devices :: "ptr \<Rightarrow> Device"
  contexts :: "ptr \<Rightarrow> Context"

definition set_mDefaultCommandQueue :: "ptr \<Rightarrow> ptr \<Rightarrow> heap \<Rightarrow> heap" where
  \<comment> \<open>the assignment \<open>d->mDefaultCommandQueue = q\<close>\<close>
  "set_mDefaultCommandQueue d q h =
     h\<lparr>devices := (devices h)(d := (devices h d)\<lparr>mDefaultCommandQueue := q\<rparr>)\<rparr>"

section \<open>CommandQueue::getInfo\<close>

text \<open>
  The enumerators named by the switch of \<open>getInfo\<close>; \<open>OtherInfo n\<close> is any other value
  of the enumeration type, which the switch sends to its \<open>default\<close> branch.
\<close>

datatype CommandQueueInfo =
  Context | Device | ReferenceCount | Properties | PropertiesArray | Size | DeviceDefault
  | OtherInfo nat

text \<open>
  The object representation of an unsigned value in \<open>n\<close> bytes, least significant byte
  first. No statement below depends on the byte order.
\<close>

definition le_bytes :: "nat \<Rightarrow> nat \<Rightarrow> byte list" where
  "le_bytes n v = map (\<lambda>i. of_nat (v div 256 ^ i)) [0..<n]"

text \<open>
  \<open>mPropArray.data()\<close>: the elements' bytes in order, or the null pointer (\<open>None\<close>) for an
  empty vector on a platform where that is what \<open>data()\<close> returns.
\<close>

definition vector_data :: "platform \<Rightarrow> cl_queue_properties list \<Rightarrow> byte list option" where
  "vector_data pl xs =
     (if xs = [] \<and> empty_data_null pl then None
      else Some (concat (map (\<lambda>w. le_bytes 8 (unat w)) xs)))"

text \<open>
  The switch of \<open>getInfo\<close>: the pair \<open>(copyValue, copySize)\<close> it leaves behind, with
  \<open>copyValue\<close> given by the bytes it points to (\<open>None\<close> for a null pointer), or \<open>None\<close>
  where the \<open>default\<close> branch returns.
\<close>

fun getInfo_switch ::
  "platform \<Rightarrow> heap \<Rightarrow> ptr \<Rightarrow> CommandQueueInfo \<Rightarrow> (byte list option \<times> nat) option" where
  "getInfo_switch pl h this Context =
     (let valPointer = mContext (queues h this)
      in Some (Some (le_bytes (sizeof_ptr pl) valPointer), sizeof_ptr pl))"
| "getInfo_switch pl h this Device =
     (let valPointer = mDevice (queues h this)
      in Some (Some (le_bytes (sizeof_ptr pl) valPointer), sizeof_ptr pl))"
| "getInfo_switch pl h this ReferenceCount =
     Some (Some (le_bytes 4 (unat (mRefCount (queues h this)))), 4)"
| "getInfo_switch pl h this Properties =
     Some (Some (le_bytes 8 (unat (mProperties (queues h this)))), 8)"
| "getInfo_switch pl h this PropertiesArray =
     Some (vector_data pl (mPropArray (queues h this)),
           length (mPropArray (queues h this)) * 8)"
| "getInfo_switch pl h this Size =
     Some (Some (le_bytes 4 (unat (mSize (queues h this)))), 4)"
| "getInfo_switch pl h this DeviceDefault =
     (let valPointer = mDefaultCommandQueue (devices h (mDevice (queues h this)))
      in Some (Some (le_bytes (sizeof_ptr pl) valPointer), sizeof_ptr pl))"
| "getInfo_switch pl h this (OtherInfo n) = None"

text \<open>
  \<open>std::memcpy(dst, src, n)\<close> on a destination buffer given by its bytes: the first
  \<open>n\<close> bytes come from the source, the others stay.
\<close>

definition memcpy :: "byte list \<Rightarrow> byte list \<Rightarrow> nat \<Rightarrow> byte list" where
  "memcpy dst src n = take n src @ drop n dst"

text \<open>
  \<open>getInfo\<close> returns the result code together with what its two output pointers
  designate after the call. \<open>value\<close> is \<open>None\<close> for a null pointer and otherwise the
  bytes of the caller's buffer, of which the caller declares \<open>valueSize\<close>;
  \<open>valueSizeRet\<close> is \<open>None\<close> for a null pointer and otherwise the \<open>size_t\<close> it
  points to.
\<close>

definition getInfo ::
  "platform \<Rightarrow> heap \<Rightarrow> ptr \<Rightarrow> CommandQueueInfo \<Rightarrow> nat \<Rightarrow> byte list option \<Rightarrow> nat option
   \<Rightarrow> cl_int \<times> byte list option \<times> nat option" where
  "getInfo pl h this name valueSize value valueSizeRet =
     (case getInfo_switch pl h this name of
        None \<Rightarrow> (CL_INVALID_VALUE, value, valueSizeRet)
      | Some (copyValue, copySize) \<Rightarrow>
          if value \<noteq> None \<and> valueSize < copySize
          then (CL_INVALID_VALUE, value, valueSizeRet)
          else (CL_SUCCESS,
                (case value of
                   None \<Rightarrow> None
                 | Some buf \<Rightarrow>
                     (case copyValue of
                        None \<Rightarrow> Some buf
                      | Some src \<Rightarrow> Some (memcpy buf src copySize))),
                (case valueSizeRet of
                   None \<Rightarrow> None
                 | Some old \<Rightarrow> Some copySize)))"

section \<open>CommandQueue::setProperty\<close>

text \<open>
  \<open>impl\<close> is \<open>mImpl->setProperty\<close>, the backend's answer to the requested change.
  \<open>oldProperties\<close> is \<open>None\<close> for a null pointer and otherwise the value it points to;
  the second component of the result is what it points to after the call.
\<close>

definition set_mProperties :: "ptr \<Rightarrow> cl_bitfield \<Rightarrow> heap \<Rightarrow> heap" where
  \<comment> \<open>an assignment to \<open>mProperties\<close> of the queue at \<open>this\<close>\<close>
  "set_mProperties this bits h =
     h\<lparr>queues := (queues h)(this := (queues h this)\<lparr>mProperties := bits\<rparr>)\<rparr>"

definition setProperty ::
  "(cl_bitfield \<Rightarrow> cl_bool \<Rightarrow> cl_int) \<Rightarrow> ptr \<Rightarrow> cl_bitfield \<Rightarrow> cl_bool
   \<Rightarrow> cl_bitfield option \<Rightarrow> heap \<Rightarrow> cl_int \<times> cl_bitfield option \<times> heap" where
  "setProperty impl this properties enable oldProperties h =
     (let oldProperties' =
            (case oldProperties of
               None \<Rightarrow> None
             | Some old \<Rightarrow> Some (mProperties (queues h this)));
          result = impl properties enable
      in if result = CL_SUCCESS
         then if enable = CL_FALSE
              then (result, oldProperties',
                    set_mProperties this
                      (clear_bits (mProperties (queues h this)) properties) h)
              else (result, oldProperties',
                    set_mProperties this
                      (set_bits (mProperties (queues h this)) properties) h)
         else (result, oldProperties', h))"

section \<open>Construction and destruction of a CommandQueue\<close>

text \<open>
  The member initialisers that the class declarations give (libANGLE/CLObject.h and
  libANGLE/CLCommandQueue.h, not under src/): the reference count of a fresh
  \<open>Object\<close> and the \<open>mSize\<close> of a queue built without an explicit size.
\<close>

record member_defaults =
  initRefCount :: cl_uint
  defaultSize :: cl_uint

text \<open>
  Both constructors build the queue at the address \<open>this\<close>. The backend factory
  \<open>context.mImpl->createCommandQueue(*this, errorCode)\<close> is an external collaborator:
  \<open>backendError\<close> is the code it stores in \<open>errorCode\<close>, which the constructor hands back
  beside the heap. The constructor body runs whatever that code is.
\<close>

definition CommandQueue_ctor_legacy ::
  "member_defaults \<Rightarrow> cl_int \<Rightarrow> ptr \<Rightarrow> ptr \<Rightarrow> ptr \<Rightarrow> cl_bitfield \<Rightarrow> heap \<Rightarrow> heap \<times> cl_int" where
  "CommandQueue_ctor_legacy md backendError this context device properties h =
     (h\<lparr>queues := (queues h)(this :=
          \<lparr>mRefCount = initRefCount md, mContext = context, mDevice = device,
           mPropArray = [], mProperties = properties, mSize = defaultSize md\<rparr>)\<rparr>,
      backendError)"

definition CommandQueue_ctor_propArray ::
  "member_defaults \<Rightarrow> cl_int \<Rightarrow> ptr \<Rightarrow> ptr \<Rightarrow> ptr \<Rightarrow> cl_queue_properties list \<Rightarrow> cl_bitfield
   \<Rightarrow> cl_uint \<Rightarrow> heap \<Rightarrow> heap \<times> cl_int" where
  "CommandQueue_ctor_propArray md backendError this context device propArray properties size' h =
     (let h1 = h\<lparr>queues := (queues h)(this :=
                 \<lparr>mRefCount = initRefCount md, mContext = context, mDevice = device,
                  mPropArray = propArray, mProperties = properties, mSize = size'\<rparr>)\<rparr>
      in if isSet (mProperties (queues h1 this)) CL_QUEUE_ON_DEVICE_DEFAULT
         then (set_mDefaultCommandQueue (mDevice (queues h1 this)) this h1, backendError)
         else (h1, backendError))"

definition CommandQueue_dtor :: "ptr \<Rightarrow> heap \<Rightarrow> heap" where
  "CommandQueue_dtor this h =
     (if mDefaultCommandQueue (devices h (mDevice (queues h this))) = this
      then set_mDefaultCommandQueue (mDevice (queues h this)) nullptr h
      else h)"

section \<open>CommandQueue::release\<close>

text \<open>
  Modelled from the spec: \<open>Object::removeRef\<close> (libANGLE/CLObject.h) is not under src/.
  The spec: "\<open>removeRef()\<close> decrements and returns whether the count reached zero
  (signal-only -- it does not perform destruction itself)".
\<close>

definition removeRef :: "ptr \<Rightarrow> heap \<Rightarrow> bool \<times> heap" where
  "removeRef this h =
     (let c = mRefCount (queues h this) - 1
      in (c = 0, h\<lparr>queues := (queues h)(this := (queues h this)\<lparr>mRefCount := c\<rparr>)\<rparr>))"

text \<open>
  Modelled from the spec: \<open>Context::destroyCommandQueue\<close> (libANGLE/CLContext.cpp) is not
  under src/. The spec: it "erases the matching entry from the owning list by identity
  (pointer equality), which releases the last owning reference and allows destruction
  to complete", where the destructor of the erased queue is \<open>CommandQueue_dtor\<close> above.
  The counted references a queue holds to its Context and Device are not followed.
\<close>

definition destroyCommandQueue :: "ptr \<Rightarrow> ptr \<Rightarrow> heap \<Rightarrow> heap" where
  "destroyCommandQueue ctx commandQueue h =
     (if commandQueue \<in> set (mCommandQueues (contexts h ctx))
      then CommandQueue_dtor commandQueue
             (h\<lparr>contexts := (contexts h)(ctx := (contexts h ctx)
                  \<lparr>mCommandQueues := remove1 commandQueue (mCommandQueues (contexts h ctx))\<rparr>)\<rparr>)
      else h)"

definition release :: "ptr \<Rightarrow> heap \<Rightarrow> bool \<times> heap" where
  "release this h =
     (let (released, h1) = removeRef this h
      in if released
         then (released, destroyCommandQueue (mContext (queues h1 this)) this h1)
         else (released, h1))"

section \<open>The aggregate queries of Context\<close>

text \<open>
  \<open>std::find_if\<close> over a list: the position of the first element that satisfies the
  predicate, the length of the list (\<open>cend()\<close>) when there is none.
\<close>

fun find_if :: "('a \<Rightarrow> bool) \<Rightarrow> 'a list \<Rightarrow> nat" where
  "find_if p [] = 0"
| "find_if p (x # xs) = (if p x then 0 else Suc (find_if p xs))"

definition hasDevice :: "heap \<Rightarrow> ptr \<Rightarrow> ptr \<Rightarrow> bool" where
  "hasDevice h this device =
     (find_if (\<lambda>p. p = device) (mDevices (contexts h this))
        \<noteq> length (mDevices (contexts h this)))"

definition supportsImages :: "heap \<Rightarrow> ptr \<Rightarrow> bool" where
  "supportsImages h this =
     (find_if (\<lambda>p. mImageSupport (mInfo (devices h p)) = CL_TRUE) (mDevices (contexts h this))
        \<noteq> length (mDevices (contexts h this)))"

definition supportsIL :: "heap \<Rightarrow> ptr \<Rightarrow> bool" where
  "supportsIL h this =
     (find_if (\<lambda>p. \<not> (mIL_Version (mInfo (devices h p)) = [])) (mDevices (contexts h this))
        \<noteq> length (mDevices (contexts h this)))"

definition hasCommandQueue :: "heap \<Rightarrow> ptr \<Rightarrow> ptr \<Rightarrow> bool" where
  "hasCommandQueue h this commandQueue =
     (find_if (\<lambda>p. p = commandQueue) (mCommandQueues (contexts h this))
        \<noteq> length (mCommandQueues (contexts h this)))"

section \<open>Canonical sizes\<close>

text \<open>
  The property names that have a \<open>case\<close> label in the switch of \<open>getInfo\<close>, and, read
  off that switch, the size the switch assigns to a name (its canonical size) and the
  bytes found at the source location it selects (none behind a null pointer).
\<close>

definition recognized :: "CommandQueueInfo set" where
  "recognized =
     {Context, Device, ReferenceCount, Properties, PropertiesArray, Size, DeviceDefault}"

definition canonicalSize :: "platform \<Rightarrow> heap \<Rightarrow> ptr \<Rightarrow> CommandQueueInfo \<Rightarrow> nat option" where
  "canonicalSize pl h this name = map_option snd (getInfo_switch pl h this name)"

definition canonicalBytes :: "platform \<Rightarrow> heap \<Rightarrow> ptr \<Rightarrow> CommandQueueInfo \<Rightarrow> byte list" where
  "canonicalBytes pl h this name =
     (case getInfo_switch pl h this name of
        Some (Some src, copySize) \<Rightarrow> src
      | _ \<Rightarrow> [])"

section \<open>Concrete objects\<close>

text \<open>
  A 64-bit platform, a heap whose queues all have one reference, no property and the
  device at address 32, variants of it, and two backends: one that accepts every
  property change and one that rejects every change with \<open>CL_INVALID_OPERATION\<close>.
\<close>

definition demo_platform :: platform where
  "demo_platform = \<lparr>sizeof_ptr = 8, empty_data_null = True\<rparr>"

definition demo_queue :: CommandQueue where
  "demo_queue = \<lparr>mRefCount = 1, mContext = 16, mDevice = 32, mPropArray = [],
                 mProperties = 0, mSize = 0\<rparr>"

definition demo_heap :: heap where
  "demo_heap =
     \<lparr>queues = (\<lambda>p. demo_queue),
      devices = (\<lambda>p. \<lparr>mInfo = \<lparr>mImageSupport = 0, mIL_Version = []\<rparr>,
                       mDefaultCommandQueue = 0\<rparr>),
      contexts = (\<lambda>p. \<lparr>mDevices = [32], mCommandQueues = [48]\<rparr>)\<rparr>"

definition demo_heap_default :: heap where
  "demo_heap_default = set_mDefaultCommandQueue 32 48 demo_heap"

definition demo_heap_shared :: heap where
  "demo_heap_shared = demo_heap\<lparr>queues := (queues demo_heap)(48 := demo_queue\<lparr>mRefCount := 2\<rparr>)\<rparr>"

definition demo_heap_two_devices :: heap where
  "demo_heap_two_devices =
     \<lparr>queues = (\<lambda>p. demo_queue),
      devices = (\<lambda>p. \<lparr>mInfo = \<lparr>mImageSupport = (if p = 33 then CL_TRUE else CL_FALSE),
                                mIL_Version = (if p = 33 then ''SPIR-V_1.0'' else [])\<rparr>,
                       mDefaultCommandQueue = 0\<rparr>),
      contexts = (\<lambda>p. \<lparr>mDevices = (if p = 16 then [32, 33] else [32]),
                        mCommandQueues = []\<rparr>)\<rparr>"

definition demo_impl_ok :: "cl_bitfield \<Rightarrow> cl_bool \<Rightarrow> cl_int" where
  "demo_impl_ok properties enable = CL_SUCCESS"

definition demo_impl_reject :: "cl_bitfield \<Rightarrow> cl_bool \<Rightarrow> cl_int" where
  "demo_impl_reject properties enable = - 59"

definition demo_defaults :: member_defaults where
  "demo_defaults = \<lparr>initRefCount = 1, defaultSize = - 1\<rparr>"

section \<open>Facts about the switch and the copy\<close>

lemma length_le_bytes: "length (le_bytes n v) = n"
  by (simp add: le_bytes_def)

lemma length_vector_bytes:
  "length (concat (map (\<lambda>w. le_bytes 8 (unat w)) xs)) = length xs * 8"
  by (induction xs) (simp_all add: length_le_bytes)

lemma getInfo_switch_recognized:
  "name \<in> recognized \<Longrightarrow> \<exists>copyValue copySize. getInfo_switch pl h this name = Some (copyValue, copySize)"
  by (cases name) (simp_all add: recognized_def Let_def)

lemma getInfo_switch_unrecognized:
  "name \<notin> recognized \<Longrightarrow> getInfo_switch pl h this name = None"
  by (cases name) (simp_all add: recognized_def)

lemma getInfo_switch_length:
  "getInfo_switch pl h this name = Some (Some src, copySize) \<Longrightarrow> length src = copySize"
  by (cases name)
    (auto simp: Let_def length_le_bytes length_vector_bytes vector_data_def split: if_splits)

lemma getInfo_switch_null:
  "getInfo_switch pl h this name = Some (None, copySize) \<Longrightarrow> copySize = 0"
  by (cases name) (auto simp: Let_def vector_data_def split: if_splits)

lemma recognized_canonicalSize:
  "name \<in> recognized \<Longrightarrow> \<exists>S. canonicalSize pl h this name = Some S"
  using getInfo_switch_recognized [of name pl h this] by (auto simp: canonicalSize_def)

lemma canonicalBytes_length:
  "canonicalSize pl h this name = Some S \<Longrightarrow> length (canonicalBytes pl h this name) = S"
  by (auto simp: canonicalSize_def canonicalBytes_def split: option.splits
           dest: getInfo_switch_length getInfo_switch_null)

text \<open>
  The canonical size of every property: a pointer for the three handles, four bytes
  for the two \<open>cl_uint\<close> fields, eight for the bit field, eight per element of the
  property array.
\<close>

lemma canonicalSize_table:
  "canonicalSize pl h this Context = Some (sizeof_ptr pl)"
  "canonicalSize pl h this Device = Some (sizeof_ptr pl)"
  "canonicalSize pl h this ReferenceCount = Some 4"
  "canonicalSize pl h this Properties = Some 8"
  "canonicalSize pl h this PropertiesArray = Some (length (mPropArray (queues h this)) * 8)"
  "canonicalSize pl h this Size = Some 4"
  "canonicalSize pl h this DeviceDefault = Some (sizeof_ptr pl)"
  "canonicalSize pl h this (OtherInfo n) = None"
  by (simp_all add: canonicalSize_def Let_def)

text \<open>
  The three ways through the tail of \<open>getInfo\<close> for a name with a canonical size:
  no buffer, a buffer declared too small, a buffer declared large enough.
\<close>

lemma getInfo_size_probe:
  "canonicalSize pl h this name = Some S \<Longrightarrow>
   getInfo pl h this name valueSize None valueSizeRet
     = (CL_SUCCESS, None, map_option (\<lambda>old. S) valueSizeRet)"
  by (auto simp: canonicalSize_def getInfo_def split: option.splits)

lemma getInfo_too_small:
  "canonicalSize pl h this name = Some S \<Longrightarrow> valueSize < S \<Longrightarrow>
   getInfo pl h this name valueSize (Some buf) valueSizeRet
     = (CL_INVALID_VALUE, Some buf, valueSizeRet)"
  by (auto simp: canonicalSize_def getInfo_def split: option.splits)

lemma getInfo_copy:
  assumes "canonicalSize pl h this name = Some S" and "S \<le> valueSize"
  shows "getInfo pl h this name valueSize (Some buf) valueSizeRet
     = (CL_SUCCESS, Some (canonicalBytes pl h this name @ drop S buf),
        map_option (\<lambda>old. S) valueSizeRet)"
proof -
  from assms(1) obtain copyValue where sw: "getInfo_switch pl h this name = Some (copyValue, S)"
    by (auto simp: canonicalSize_def)
  show ?thesis
  proof (cases copyValue)
    case None
    with sw have "S = 0" by (simp add: getInfo_switch_null)
    with sw None assms(2) show ?thesis
      by (cases valueSizeRet) (simp_all add: getInfo_def canonicalBytes_def)
  next
    case (Some src)
    with sw have "length src = S" by (simp add: getInfo_switch_length)
    with sw Some assms(2) show ?thesis
      by (cases valueSizeRet) (simp_all add: getInfo_def canonicalBytes_def memcpy_def)
  qed
qed

section \<open>Properties of getInfo\<close>

text \<open>
  Claim C1, as amended. For every recognized property name and a non-null
  \<open>valueSizeRet\<close>, the canonical size is written into \<open>*valueSizeRet\<close> whenever the
  call succeeds, that is when \<open>value\<close> is null or \<open>valueSize\<close> is at least the canonical
  size, whether or not any byte was copied. When \<open>value\<close> is non-null and \<open>valueSize\<close>
  is smaller than the canonical size, the call returns \<open>CL_INVALID_VALUE\<close> from inside
  the capacity check and \<open>*valueSizeRet\<close> keeps its old content.
\<close>

theorem getInfo_sizeRet_on_success:
  assumes "name \<in> recognized"
  shows "\<exists>S. canonicalSize pl h this name = Some S
     \<and> ((value = None \<or> S \<le> valueSize) \<longrightarrow>
          fst (getInfo pl h this name valueSize value (Some old)) = CL_SUCCESS
          \<and> snd (snd (getInfo pl h this name valueSize value (Some old))) = Some S)
     \<and> ((value \<noteq> None \<and> valueSize < S) \<longrightarrow>
          fst (getInfo pl h this name valueSize value (Some old)) = CL_INVALID_VALUE
          \<and> snd (snd (getInfo pl h this name valueSize value (Some old))) = Some old)"
proof -
  from assms obtain S where S: "canonicalSize pl h this name = Some S"
    using recognized_canonicalSize by blast
  show ?thesis
  proof (cases "value")
    case None
    with S show ?thesis by (simp add: getInfo_size_probe)
  next
    case (Some buf)
    with S show ?thesis by (auto simp: getInfo_too_small getInfo_copy)
  qed
qed

theorem getInfo_sizeRet_on_success_witness:
  "Properties \<in> recognized
   \<and> getInfo demo_platform demo_heap 48 Properties 0 None (Some 0)
       = (CL_SUCCESS, None, Some 8)
   \<and> fst (getInfo demo_platform demo_heap 48 Properties 4 (Some [1, 2, 3, 4]) (Some 0))
       = CL_INVALID_VALUE"
proof -
  have r: "Properties \<in> recognized" by (simp add: recognized_def)
  have c: "canonicalSize demo_platform demo_heap 48 Properties = Some 8"
    by (simp add: canonicalSize_def)
  from getInfo_sizeRet_on_success [OF r, of demo_platform demo_heap 48 None 0 0] c
  have "fst (getInfo demo_platform demo_heap 48 Properties 0 None (Some 0)) = CL_SUCCESS
        \<and> snd (snd (getInfo demo_platform demo_heap 48 Properties 0 None (Some 0))) = Some 8"
    by simp
  moreover have "fst (snd (getInfo demo_platform demo_heap 48 Properties 0 None (Some 0))) = None"
    by (simp add: getInfo_def)
  moreover from getInfo_sizeRet_on_success
      [OF r, of demo_platform demo_heap 48 "Some [1, 2, 3, 4]" 4 0] c
  have "fst (getInfo demo_platform demo_heap 48 Properties 4 (Some [1, 2, 3, 4]) (Some 0))
        = CL_INVALID_VALUE"
    by simp
  ultimately show ?thesis using r by (simp add: prod_eq_iff)
qed

text \<open>
  Claim C1 as first stated also promises the size after the error return. A query of
  \<open>Properties\<close> (canonical size 8) with a four-byte buffer and \<open>*valueSizeRet = 0\<close>
  returns \<open>CL_INVALID_VALUE\<close> and leaves \<open>*valueSizeRet\<close> at 0.
\<close>

theorem getInfo_sizeRet_on_error_counterexample:
  "Properties \<in> recognized
   \<and> canonicalSize demo_platform demo_heap 48 Properties = Some 8
   \<and> getInfo demo_platform demo_heap 48 Properties 4 (Some [1, 2, 3, 4]) (Some 0)
       = (CL_INVALID_VALUE, Some [1, 2, 3, 4], Some 0)
   \<and> snd (snd (getInfo demo_platform demo_heap 48 Properties 4 (Some [1, 2, 3, 4]) (Some 0)))
       \<noteq> canonicalSize demo_platform demo_heap 48 Properties"
  by (simp add: recognized_def canonicalSize_def getInfo_def demo_platform_def)

text \<open>
  Claim C2. For every recognized property name and a non-null buffer: when the
  declared capacity \<open>valueSize\<close> is smaller than the canonical size, \<open>getInfo\<close> returns
  \<open>CL_INVALID_VALUE\<close> and the buffer is unchanged; when it is at least the canonical
  size, \<open>getInfo\<close> succeeds and the buffer holds the canonical bytes, exactly as many as
  the canonical size, followed by its old content beyond them.
\<close>

theorem getInfo_buffer_capacity:
  assumes "name \<in> recognized"
  shows "\<exists>S. canonicalSize pl h this name = Some S
     \<and> length (canonicalBytes pl h this name) = S
     \<and> (valueSize < S \<longrightarrow>
          fst (getInfo pl h this name valueSize (Some buf) valueSizeRet) = CL_INVALID_VALUE
          \<and> fst (snd (getInfo pl h this name valueSize (Some buf) valueSizeRet)) = Some buf)
     \<and> (S \<le> valueSize \<longrightarrow>
          fst (getInfo pl h this name valueSize (Some buf) valueSizeRet) = CL_SUCCESS
          \<and> fst (snd (getInfo pl h this name valueSize (Some buf) valueSizeRet))
              = Some (canonicalBytes pl h this name @ drop S buf))"
proof -
  from assms obtain S where S: "canonicalSize pl h this name = Some S"
    using recognized_canonicalSize by blast
  then show ?thesis
    by (auto simp: getInfo_too_small getInfo_copy canonicalBytes_length)
qed

theorem getInfo_buffer_capacity_witness:
  "ReferenceCount \<in> recognized
   \<and> fst (getInfo demo_platform demo_heap 48 ReferenceCount 3 (Some [9, 9, 9, 9, 9]) None)
       = CL_INVALID_VALUE
   \<and> fst (snd (getInfo demo_platform demo_heap 48 ReferenceCount 3 (Some [9, 9, 9, 9, 9]) None))
       = Some [9, 9, 9, 9, 9]
   \<and> fst (getInfo demo_platform demo_heap 48 ReferenceCount 5 (Some [9, 9, 9, 9, 9]) None)
       = CL_SUCCESS
   \<and> fst (snd (getInfo demo_platform demo_heap 48 ReferenceCount 5 (Some [9, 9, 9, 9, 9]) None))
       = Some [1, 0, 0, 0, 9]"
proof -
  have r: "ReferenceCount \<in> recognized" by (simp add: recognized_def)
  have c: "canonicalSize demo_platform demo_heap 48 ReferenceCount = Some 4"
    by (simp add: canonicalSize_def)
  have b: "canonicalBytes demo_platform demo_heap 48 ReferenceCount = [1, 0, 0, 0]"
    by (simp add: canonicalBytes_def demo_heap_def demo_queue_def le_bytes_def upt_rec)
  from getInfo_buffer_capacity
      [OF r, of demo_platform demo_heap 48 3 "[9, 9, 9, 9, 9]" None]
    getInfo_buffer_capacity
      [OF r, of demo_platform demo_heap 48 5 "[9, 9, 9, 9, 9]" None] c b r
  show ?thesis by simp
qed

text \<open>
  Claim C6. For every property name outside the recognized set, \<open>getInfo\<close> returns
  \<open>CL_INVALID_VALUE\<close>, and neither the buffer nor \<open>*valueSizeRet\<close> is written.
\<close>

theorem getInfo_unrecognized:
  assumes "name \<notin> recognized"
  shows "getInfo pl h this name valueSize value valueSizeRet
           = (CL_INVALID_VALUE, value, valueSizeRet)"
  using assms by (simp add: getInfo_def getInfo_switch_unrecognized)

theorem getInfo_unrecognized_witness:
  "OtherInfo 7 \<notin> recognized
   \<and> getInfo demo_platform demo_heap 48 (OtherInfo 7) 8 (Some [1, 2, 3, 4, 5, 6, 7, 8]) (Some 5)
       = (CL_INVALID_VALUE, Some [1, 2, 3, 4, 5, 6, 7, 8], Some 5)"
proof -
  have r: "OtherInfo 7 \<notin> recognized" by (simp add: recognized_def)
  from getInfo_unrecognized [OF r] r show ?thesis by simp
qed

text \<open>
  Claim C7. For every recognized property name, a call with a null buffer succeeds and
  reports a size \<open>S\<close> through \<open>valueSizeRet\<close>; on the same heap, a second call with any
  non-null buffer of declared capacity \<open>S\<close> succeeds and copies \<open>S\<close> bytes.
\<close>

theorem getInfo_probe_then_use:
  assumes "name \<in> recognized"
  shows "\<exists>S. getInfo pl h this name valueSize None (Some old) = (CL_SUCCESS, None, Some S)
     \<and> length (canonicalBytes pl h this name) = S
     \<and> (\<forall>buf valueSizeRet.
          getInfo pl h this name S (Some buf) valueSizeRet
            = (CL_SUCCESS, Some (canonicalBytes pl h this name @ drop S buf),
               map_option (\<lambda>old. S) valueSizeRet))"
proof -
  from assms obtain S where S: "canonicalSize pl h this name = Some S"
    using recognized_canonicalSize by blast
  then show ?thesis
    by (simp add: getInfo_size_probe getInfo_copy canonicalBytes_length)
qed

theorem getInfo_probe_then_use_witness:
  "Size \<in> recognized
   \<and> getInfo demo_platform demo_heap 48 Size 0 None (Some 0) = (CL_SUCCESS, None, Some 4)
   \<and> getInfo demo_platform demo_heap 48 Size 4 (Some [9, 9, 9, 9]) None
       = (CL_SUCCESS, Some [0, 0, 0, 0], None)"
proof -
  have r: "Size \<in> recognized" by (simp add: recognized_def)
  have p: "getInfo demo_platform demo_heap 48 Size 0 None (Some 0) = (CL_SUCCESS, None, Some 4)"
    by (simp add: getInfo_def)
  have b: "canonicalBytes demo_platform demo_heap 48 Size = [0, 0, 0, 0]"
    by (simp add: canonicalBytes_def demo_heap_def demo_queue_def le_bytes_def upt_rec)
  from getInfo_probe_then_use [OF r, of demo_platform demo_heap 48 0 0] p b
  have "getInfo demo_platform demo_heap 48 Size 4 (Some [9, 9, 9, 9]) None
          = (CL_SUCCESS, Some [0, 0, 0, 0], None)"
    by simp
  with r p show ?thesis by simp
qed

section \<open>Properties of setProperty\<close>

lemma bit_clear_bits:
  "bit (clear_bits mBits bits) n = (bit mBits n \<and> \<not> bit bits n)"
  by (auto simp: clear_bits_def bit_simps dest: bit_imp_le_length)

lemma bit_set_bits:
  "bit (set_bits mBits bits) n = (bit mBits n \<or> bit bits n)"
  by (simp add: set_bits_def bit_simps)

text \<open>
  Claim C3. \<open>setProperty\<close> returns the backend's code; a non-null \<open>oldProperties\<close>
  receives the bit set as it was before the call, whatever the backend answers; the
  heap is unchanged when the backend does not return \<open>CL_SUCCESS\<close>; on success the only
  change is to \<open>mProperties\<close> of this queue, where every bit of the supplied mask is
  cleared when \<open>enable\<close> is \<open>CL_FALSE\<close> and set otherwise, in one update of the word.
\<close>

theorem setProperty_contract:
  "fst (setProperty impl this properties enable oldProperties h) = impl properties enable
   \<and> fst (snd (setProperty impl this properties enable oldProperties h))
       = map_option (\<lambda>old. mProperties (queues h this)) oldProperties
   \<and> (impl properties enable \<noteq> CL_SUCCESS \<longrightarrow>
        snd (snd (setProperty impl this properties enable oldProperties h)) = h)
   \<and> (impl properties enable = CL_SUCCESS \<longrightarrow>
        snd (snd (setProperty impl this properties enable oldProperties h))
          = set_mProperties this
              (if enable = CL_FALSE then mProperties (queues h this) AND NOT properties
               else mProperties (queues h this) OR properties) h
        \<and> (\<forall>n. bit (mProperties (queues
                   (snd (snd (setProperty impl this properties enable oldProperties h))) this)) n
               = (if enable = CL_FALSE
                  then bit (mProperties (queues h this)) n \<and> \<not> bit properties n
                  else bit (mProperties (queues h this)) n \<or> bit properties n)))"
proof -
  have clr: "mProperties (queues h this) AND NOT properties
               = clear_bits (mProperties (queues h this)) properties"
    by (simp add: clear_bits_def)
  have st: "mProperties (queues h this) OR properties
               = set_bits (mProperties (queues h this)) properties"
    by (simp add: set_bits_def)
  show ?thesis
    unfolding clr st
    by (cases oldProperties)
      (simp_all add: setProperty_def Let_def set_mProperties_def bit_clear_bits bit_set_bits)
qed

theorem setProperty_contract_witness:
  "setProperty demo_impl_ok 48 3 CL_TRUE (Some 99) demo_heap
     = (CL_SUCCESS, Some 0, set_mProperties 48 3 demo_heap)
   \<and> setProperty demo_impl_reject 48 3 CL_TRUE (Some 99) demo_heap
     = (- 59, Some 0, demo_heap)"
proof -
  have q: "mProperties (queues demo_heap 48) = 0"
    by (simp add: demo_heap_def demo_queue_def)
  have t: "CL_TRUE \<noteq> CL_FALSE" by (simp add: CL_TRUE_def CL_FALSE_def)
  have r: "demo_impl_reject 3 CL_TRUE \<noteq> CL_SUCCESS"
    by (simp add: demo_impl_reject_def CL_SUCCESS_def)
  from setProperty_contract [of demo_impl_ok 48 3 CL_TRUE "Some 99" demo_heap]
    setProperty_contract [of demo_impl_reject 48 3 CL_TRUE "Some 99" demo_heap] q t r
  show ?thesis
    by (simp add: prod_eq_iff demo_impl_ok_def demo_impl_reject_def)
qed

section \<open>The default queue of a Device\<close>

text \<open>
  Claim C4, as amended. Constructing a queue through the constructor that takes a
  property array, with a bit set in which \<open>CL_QUEUE_ON_DEVICE_DEFAULT\<close> is set, records
  the new queue as the default queue of its Device whatever was recorded before and
  whatever the backend factory reports: after building \<open>q1\<close> and then \<open>q2\<close> that way on
  the same Device, the slot holds \<open>q2\<close>.
\<close>

theorem ctor_propArray_installs_default:
  assumes "isSet p1 CL_QUEUE_ON_DEVICE_DEFAULT" and "isSet p2 CL_QUEUE_ON_DEVICE_DEFAULT"
  shows "mDefaultCommandQueue (devices (fst
           (CommandQueue_ctor_propArray md e1 q1 c1 d a1 p1 s1 h)) d) = q1
     \<and> mDefaultCommandQueue (devices (fst
           (CommandQueue_ctor_propArray md e2 q2 c2 d a2 p2 s2 (fst
             (CommandQueue_ctor_propArray md e1 q1 c1 d a1 p1 s1 h)))) d) = q2"
  using assms by (simp add: CommandQueue_ctor_propArray_def set_mDefaultCommandQueue_def)

theorem ctor_propArray_installs_default_witness:
  "isSet 8 CL_QUEUE_ON_DEVICE_DEFAULT
   \<and> mDefaultCommandQueue (devices (fst
         (CommandQueue_ctor_propArray demo_defaults 0 48 16 32 [] 8 0 demo_heap)) 32) = 48
   \<and> mDefaultCommandQueue (devices (fst
         (CommandQueue_ctor_propArray demo_defaults 0 64 16 32 [] 8 0 (fst
           (CommandQueue_ctor_propArray demo_defaults 0 48 16 32 [] 8 0 demo_heap)))) 32) = 64"
proof -
  have s: "isSet 8 CL_QUEUE_ON_DEVICE_DEFAULT"
    by (simp add: isSet_def CL_QUEUE_ON_DEVICE_DEFAULT_def)
  from ctor_propArray_installs_default [OF s s] s show ?thesis by simp
qed

text \<open>
  Claim C4 as first stated speaks of constructing a queue with the bit set, by either
  constructor. The legacy constructor has an empty body: a queue built by it at address
  48 with \<open>CL_QUEUE_ON_DEVICE_DEFAULT\<close> set is not recorded by its Device, and after the
  queue at 48 was recorded through the property-array constructor, a second queue built
  by the legacy constructor at 64 with the same bit leaves the slot at 48.
\<close>

theorem ctor_legacy_default_counterexample:
  "isSet 8 CL_QUEUE_ON_DEVICE_DEFAULT
   \<and> mDefaultCommandQueue (devices (fst
         (CommandQueue_ctor_legacy demo_defaults 0 48 16 32 8 demo_heap)) 32) \<noteq> 48
   \<and> mDefaultCommandQueue (devices (fst
         (CommandQueue_ctor_legacy demo_defaults 0 64 16 32 8 (fst
           (CommandQueue_ctor_propArray demo_defaults 0 48 16 32 [] 8 0 demo_heap)))) 32) = 48
   \<and> mDefaultCommandQueue (devices (fst
         (CommandQueue_ctor_legacy demo_defaults 0 64 16 32 8 (fst
           (CommandQueue_ctor_propArray demo_defaults 0 48 16 32 [] 8 0 demo_heap)))) 32) \<noteq> 64"
  by (simp add: isSet_def CL_QUEUE_ON_DEVICE_DEFAULT_def CommandQueue_ctor_legacy_def
        CommandQueue_ctor_propArray_def set_mDefaultCommandQueue_def demo_heap_def)

text \<open>
  Claim C5. The destructor of a queue that is its Device's recorded default sets that
  Device's default-queue pointer to null; the destructor of any other queue changes
  nothing; no other Device is written in either case.
\<close>

theorem dtor_default_queue:
  "(mDefaultCommandQueue (devices h (mDevice (queues h this))) = this \<longrightarrow>
      mDefaultCommandQueue (devices (CommandQueue_dtor this h) (mDevice (queues h this)))
        = nullptr)
   \<and> (mDefaultCommandQueue (devices h (mDevice (queues h this))) \<noteq> this \<longrightarrow>
      CommandQueue_dtor this h = h)
   \<and> (\<forall>d. d \<noteq> mDevice (queues h this) \<longrightarrow> devices (CommandQueue_dtor this h) d = devices h d)"
  by (simp add: CommandQueue_dtor_def set_mDefaultCommandQueue_def)

theorem dtor_default_queue_witness:
  "mDefaultCommandQueue (devices demo_heap_default 32) = 48
   \<and> mDefaultCommandQueue (devices (CommandQueue_dtor 48 demo_heap_default) 32) = nullptr
   \<and> mDefaultCommandQueue (devices demo_heap_default 32) \<noteq> 64
   \<and> CommandQueue_dtor 64 demo_heap_default = demo_heap_default
   \<and> devices (CommandQueue_dtor 48 demo_heap_default) 33 = devices demo_heap_default 33"
proof -
  have q: "mDevice (queues demo_heap_default p) = 32" for p
    by (simp add: demo_heap_default_def set_mDefaultCommandQueue_def demo_heap_def
          demo_queue_def)
  have d: "mDefaultCommandQueue (devices demo_heap_default 32) = 48"
    by (simp add: demo_heap_default_def set_mDefaultCommandQueue_def)
  from dtor_default_queue [of demo_heap_default 48]
    dtor_default_queue [of demo_heap_default 64] q d
  show ?thesis by simp
qed

text \<open>
  Claim C10. The legacy constructor, which takes the bit set alone, writes no Device,
  also when \<open>CL_QUEUE_ON_DEVICE_DEFAULT\<close> is set in the bit set; the constructor that
  takes a property array records the new queue as the Device's default when that bit is
  set, and writes no Device when it is not.
\<close>

theorem ctor_legacy_keeps_default:
  "devices (fst (CommandQueue_ctor_legacy md e this c d properties h)) = devices h
   \<and> (isSet properties CL_QUEUE_ON_DEVICE_DEFAULT \<longrightarrow>
        mDefaultCommandQueue (devices (fst
          (CommandQueue_ctor_propArray md e this c d a properties s h)) d) = this)
   \<and> (\<not> isSet properties CL_QUEUE_ON_DEVICE_DEFAULT \<longrightarrow>
        devices (fst (CommandQueue_ctor_propArray md e this c d a properties s h)) = devices h)"
  by (simp add: CommandQueue_ctor_legacy_def CommandQueue_ctor_propArray_def
        set_mDefaultCommandQueue_def)

theorem ctor_legacy_keeps_default_witness:
  "isSet CL_QUEUE_ON_DEVICE_DEFAULT CL_QUEUE_ON_DEVICE_DEFAULT
   \<and> mDefaultCommandQueue (devices (fst (CommandQueue_ctor_legacy demo_defaults 0 48 16 32
         CL_QUEUE_ON_DEVICE_DEFAULT demo_heap)) 32) = nullptr
   \<and> mDefaultCommandQueue (devices (fst (CommandQueue_ctor_propArray demo_defaults 0 48 16 32
         [] CL_QUEUE_ON_DEVICE_DEFAULT 0 demo_heap)) 32) = 48
   \<and> \<not> isSet 3 CL_QUEUE_ON_DEVICE_DEFAULT
   \<and> mDefaultCommandQueue (devices (fst (CommandQueue_ctor_propArray demo_defaults 0 48 16 32
         [] 3 0 demo_heap)) 32) = nullptr"
proof -
  have s: "isSet CL_QUEUE_ON_DEVICE_DEFAULT CL_QUEUE_ON_DEVICE_DEFAULT"
    by (simp add: isSet_def CL_QUEUE_ON_DEVICE_DEFAULT_def)
  have n: "\<not> isSet 3 CL_QUEUE_ON_DEVICE_DEFAULT"
    by (simp add: isSet_def CL_QUEUE_ON_DEVICE_DEFAULT_def)
  have d: "mDefaultCommandQueue (devices demo_heap 32) = nullptr"
    by (simp add: demo_heap_def nullptr_def)
  from ctor_legacy_keeps_default
      [of demo_defaults 0 48 16 32 CL_QUEUE_ON_DEVICE_DEFAULT demo_heap "[]" 0]
    ctor_legacy_keeps_default [of demo_defaults 0 48 16 32 3 demo_heap "[]" 0] s n d
  show ?thesis by simp
qed

section \<open>Properties of release\<close>

lemma removeRef_frame:
  "contexts (snd (removeRef this h)) = contexts h"
  "devices (snd (removeRef this h)) = devices h"
  "mContext (queues (snd (removeRef this h)) this) = mContext (queues h this)"
  "fst (removeRef this h) = (mRefCount (queues h this) = 1)"
  by (simp_all add: removeRef_def Let_def)

lemma dtor_contexts: "contexts (CommandQueue_dtor this h) = contexts h"
  by (simp add: CommandQueue_dtor_def set_mDefaultCommandQueue_def)

lemma destroyCommandQueue_erases:
  "this \<in> set (mCommandQueues (contexts h ctx)) \<Longrightarrow>
   mCommandQueues (contexts (destroyCommandQueue ctx this h) ctx)
     = remove1 this (mCommandQueues (contexts h ctx))"
  by (simp add: destroyCommandQueue_def dtor_contexts)

text \<open>
  Claim C8. \<open>release\<close> returns what \<open>removeRef\<close> returns. When that is true, the heap
  it leaves is the one \<open>destroyCommandQueue\<close> of the owning Context makes of the heap
  after \<open>removeRef\<close>, in which the queue's entry is erased from the Context's list.
  When it is false, the heap is the one after \<open>removeRef\<close>: no destruction takes place
  and every Context, with its list of command queues, and every Device is as before.
\<close>

theorem release_destroys_at_zero:
  "fst (release this h) = fst (removeRef this h)
   \<and> (fst (removeRef this h) \<longrightarrow>
        snd (release this h)
          = destroyCommandQueue (mContext (queues h this)) this (snd (removeRef this h))
        \<and> (this \<in> set (mCommandQueues (contexts h (mContext (queues h this)))) \<longrightarrow>
             mCommandQueues (contexts (snd (release this h)) (mContext (queues h this)))
               = remove1 this (mCommandQueues (contexts h (mContext (queues h this))))))
   \<and> (\<not> fst (removeRef this h) \<longrightarrow>
        snd (release this h) = snd (removeRef this h)
        \<and> contexts (snd (release this h)) = contexts h
        \<and> devices (snd (release this h)) = devices h)"
proof -
  have r: "release this h =
      (if fst (removeRef this h)
       then (True, destroyCommandQueue (mContext (queues h this)) this (snd (removeRef this h)))
       else (False, snd (removeRef this h)))"
    by (simp add: release_def removeRef_def Let_def)
  show ?thesis
    by (simp add: r removeRef_frame(1,2) destroyCommandQueue_erases)
qed

theorem release_destroys_at_zero_witness:
  "fst (removeRef 48 demo_heap)
   \<and> fst (release 48 demo_heap)
   \<and> mCommandQueues (contexts (snd (release 48 demo_heap)) 16) = []
   \<and> \<not> fst (removeRef 48 demo_heap_shared)
   \<and> \<not> fst (release 48 demo_heap_shared)
   \<and> contexts (snd (release 48 demo_heap_shared)) = contexts demo_heap_shared"
proof -
  have a: "fst (removeRef 48 demo_heap)"
    by (simp add: removeRef_def demo_heap_def demo_queue_def)
  have b: "\<not> fst (removeRef 48 demo_heap_shared)"
    by (simp add: removeRef_def demo_heap_shared_def demo_heap_def demo_queue_def)
  have c: "mContext (queues demo_heap 48) = 16"
    by (simp add: demo_heap_def demo_queue_def)
  have d: "mCommandQueues (contexts
             (destroyCommandQueue 16 48 (snd (removeRef 48 demo_heap))) 16) = []"
    by (simp add: destroyCommandQueue_def removeRef_def Let_def demo_heap_def
          CommandQueue_dtor_def set_mDefaultCommandQueue_def)
  from release_destroys_at_zero [of 48 demo_heap]
    release_destroys_at_zero [of 48 demo_heap_shared] a b c d
  show ?thesis by (simp add: removeRef_frame(1))
qed

section \<open>Properties of the aggregate queries\<close>

lemma find_if_le: "find_if p xs \<le> length xs"
  by (induction xs) simp_all

lemma find_if_found: "(find_if p xs \<noteq> length xs) = (\<exists>x \<in> set xs. p x)"
  by (induction xs) (use find_if_le in \<open>auto\<close>)

text \<open>
  Claim C9. \<open>supportsImages\<close> is true exactly when some device of the Context's device
  list has \<open>mImageSupport\<close> equal to \<open>CL_TRUE\<close>, and \<open>supportsIL\<close> exactly when some
  device of the list has a non-empty \<open>mIL_Version\<close>: both look at every device of the
  list, not at one.
\<close>

theorem supports_scan_devices:
  "supportsImages h this
     = (\<exists>d \<in> set (mDevices (contexts h this)). mImageSupport (mInfo (devices h d)) = CL_TRUE)
   \<and> supportsIL h this
     = (\<exists>d \<in> set (mDevices (contexts h this)). mIL_Version (mInfo (devices h d)) \<noteq> [])"
  by (simp add: supportsImages_def supportsIL_def find_if_found)

theorem supports_scan_devices_witness:
  "supportsImages demo_heap_two_devices 16 \<and> supportsIL demo_heap_two_devices 16
   \<and> \<not> supportsImages demo_heap_two_devices 17 \<and> \<not> supportsIL demo_heap_two_devices 17"
  using supports_scan_devices [of demo_heap_two_devices 16]
    supports_scan_devices [of demo_heap_two_devices 17]
  by (simp add: demo_heap_two_devices_def CL_TRUE_def CL_FALSE_def)

end
